theory Spec2Isabelle
  imports Main "HOL-Library.Word"
begin

section \<open>The packet representation (gopacket, as far as badcapt reads it)\<close>

text \<open>
  A packet is the ordered list of its decoded layers and the capture metadata.
  \<^verbatim>\<open>p.Layer(t)\<close> returns the first layer of type \<^verbatim>\<open>t\<close> or nil, and
  \<^verbatim>\<open>p.ApplicationLayer()\<close> the first application layer or nil. A Go \<^verbatim>\<open>[]byte\<close> is a list
  of 8-bit words, a port is a \<^verbatim>\<open>uint16\<close>, the capture time an integer.
\<close>

type_synonym byte = "8 word"

record IPv4 =
  ip4_SrcIP :: "byte list"
  ip4_DstIP :: "byte list"

record TCP =
  tcp_SrcPort :: "16 word"
  tcp_DstPort :: "16 word"

record UDP =
  udp_SrcPort :: "16 word"
  udp_DstPort :: "16 word"

datatype Layer =
    LayerIPv4 IPv4
  | LayerTCP TCP
  | LayerUDP UDP
  | LayerApplication "byte list"
  | LayerOther nat

record Packet =
  Layers :: "Layer list"
  CaptureTimestamp :: int

text \<open>\<^verbatim>\<open>p.Layer(layers.LayerTypeIPv4)\<close> followed by the type assertion.\<close>

fun Layer_IPv4 :: "Layer list \<Rightarrow> IPv4 option" where
  "Layer_IPv4 [] = None"
| "Layer_IPv4 (LayerIPv4 h # ls) = Some h"
| "Layer_IPv4 (l # ls) = Layer_IPv4 ls"

fun Layer_TCP :: "Layer list \<Rightarrow> TCP option" where
  "Layer_TCP [] = None"
| "Layer_TCP (LayerTCP h # ls) = Some h"
| "Layer_TCP (l # ls) = Layer_TCP ls"

fun Layer_UDP :: "Layer list \<Rightarrow> UDP option" where
  "Layer_UDP [] = None"
| "Layer_UDP (LayerUDP h # ls) = Some h"
| "Layer_UDP (l # ls) = Layer_UDP ls"

fun ApplicationLayer :: "Layer list \<Rightarrow> byte list option" where
  "ApplicationLayer [] = None"
| "ApplicationLayer (LayerApplication bs # ls) = Some bs"
| "ApplicationLayer (l # ls) = ApplicationLayer ls"

definition unpackIPv4 :: "Packet \<Rightarrow> IPv4 option" where
  "unpackIPv4 p = (case Layer_IPv4 (Layers p) of None \<Rightarrow> None | Some ip4 \<Rightarrow> Some ip4)"

definition unpackTCP :: "Packet \<Rightarrow> TCP option" where
  "unpackTCP p = (case Layer_TCP (Layers p) of None \<Rightarrow> None | Some tcp \<Rightarrow> Some tcp)"

section \<open>Errors, markers, records\<close>

text \<open>
  \<^verbatim>\<open>errors.New(text)\<close> is an error identified by its text; the errors of the external
  collaborators (search client, JSON encoder) are opaque.
\<close>

datatype error = errors_New string | ExternalError nat

definition UnsupportedNetworkLayer :: error where
  "UnsupportedNetworkLayer = errors_New ''not ip4 type packet''"

definition UnsupportedTransport :: error where
  "UnsupportedTransport = errors_New ''nor tcp nor udp type packet''"

text \<open>
  A Go function either returns or panics. Markers are opaque plug-ins, so a call of one
  has both outcomes.
\<close>

datatype 'a outcome = Panic | Return 'a

type_synonym Marker = "Packet \<Rightarrow> string list outcome"

type_synonym SeriesMarker = "Packet list \<Rightarrow> string list outcome"

record TaggedPacket =
  tp_Packet :: Packet
  tp_Tags :: "string list"

record Record =
  SrcIP :: "byte list"
  TransportProto :: string
  SrcPort :: "16 word"
  DstIP :: "byte list"
  DstPort :: "16 word"
  Timestamp :: int
  Tags :: "string list"
  Payload :: "byte list"
  PayloadString :: string

text \<open>Go's \<^verbatim>\<open>string(payload)\<close>: the same bytes, as a string.\<close>

definition string_of_bytes :: "byte list \<Rightarrow> string" where
  "string_of_bytes bs = map (\<lambda>b. char_of (unat b)) bs"

definition NewRecord :: "TaggedPacket \<Rightarrow> error + Record" where
  "NewRecord tp =
    (case unpackIPv4 (tp_Packet tp) of
       None \<Rightarrow> Inl (errors_New ''not ip4 type packet'')
     | Some ip4 \<Rightarrow>
        (let udpLayer = Layer_UDP (Layers (tp_Packet tp));
             tcpLayer = Layer_TCP (Layers (tp_Packet tp));
             ports =
               (case tcpLayer of
                  Some tcp \<Rightarrow> Inr (tcp_SrcPort tcp, tcp_DstPort tcp, ''tcp'')
                | None \<Rightarrow>
                   (case udpLayer of
                      Some udp \<Rightarrow> Inr (udp_SrcPort udp, udp_DstPort udp, ''udp'')
                    | None \<Rightarrow> Inl (errors_New ''nor tcp nor udp type packet'')))
         in case ports of
              Inl err \<Rightarrow> Inl err
            | Inr (srcPort, dstPort, transport) \<Rightarrow>
               (let payload =
                      (case ApplicationLayer (Layers (tp_Packet tp)) of
                         None \<Rightarrow> []
                       | Some bs \<Rightarrow> bs)
                in Inr \<lparr> SrcIP = ip4_SrcIP ip4,
                         TransportProto = transport,
                         SrcPort = srcPort,
                         DstIP = ip4_DstIP ip4,
                         DstPort = dstPort,
                         Timestamp = CaptureTimestamp (tp_Packet tp),
                         Tags = tp_Tags tp,
                         Payload = payload,
                         PayloadString = string_of_bytes payload \<rparr>)))"

section \<open>External collaborators and observable calls\<close>

text \<open>
  The search-index client answers each request with a value or an error. Every call that
  leaves the program is appended to a trace: a line on standard output, a line of the
  logger, and the three requests to the search index.
\<close>

record Client =
  IndexExists_Do :: "string \<Rightarrow> error + bool"
  CreateIndex_Do :: "string \<Rightarrow> error option"
  Index_Do :: "string \<Rightarrow> string \<Rightarrow> Record \<Rightarrow> error option"

datatype Call =
    CallPrintln string
  | CallLogPrintln error
  | CallIndexExists string
  | CallCreateIndex string
  | CallIndex string string Record

type_synonym Trace = "Call list"

text \<open>
  The parts of the program's surroundings that are not in the source at hand: the three
  built-in signature detectors, the JSON encoder and the constructor of the search client.
\<close>

record Env =
  MiraiIdentifier :: Marker
  ZmapIdentifier :: Marker
  MasscanIdentifier :: Marker
  json_Marshal :: "Record \<Rightarrow> error + string"
  elastic_NewClient :: "string \<Rightarrow> error + Client"

section \<open>The configuration\<close>

definition indexName_const :: string where
  "indexName_const = ''badcapt''"

definition docType_const :: string where
  "docType_const = ''bcrecord''"

record Badcapt =
  client :: "Client option"
  indexName :: string
  docType :: string
  markers :: "Marker list"
  seriesMarkers :: "SeriesMarker list"
  cache :: "nat option"
  cacheSize :: int

definition defaultMarkers :: "Env \<Rightarrow> Marker list" where
  "defaultMarkers env = [MiraiIdentifier env, ZmapIdentifier env, MasscanIdentifier env]"

definition defaultSeriesMarkers :: "SeriesMarker list" where
  "defaultSeriesMarkers = []"

section \<open>Export\<close>

definition exportElastic :: "Badcapt \<Rightarrow> Client \<Rightarrow> Record \<Rightarrow> Trace \<Rightarrow> error option \<times> Trace" where
  "exportElastic b c record w =
     (Index_Do c (indexName b) (docType b) record,
      w @ [CallIndex (indexName b) (docType b) record])"

definition exportScreen :: "Env \<Rightarrow> Record \<Rightarrow> Trace \<Rightarrow> error option \<times> Trace" where
  "exportScreen env record w =
     (case json_Marshal env record of
        Inl err \<Rightarrow> (Some err, w)
      | Inr data \<Rightarrow> (None, w @ [CallPrintln data]))"

definition export :: "Env \<Rightarrow> Badcapt \<Rightarrow> TaggedPacket \<Rightarrow> Trace \<Rightarrow> error option \<times> Trace" where
  "export env b tp w =
     (case NewRecord tp of
        Inl err \<Rightarrow> (Some err, w)
      | Inr record \<Rightarrow>
         (case client b of
            None \<Rightarrow> exportScreen env record w
          | Some c \<Rightarrow> exportElastic b c record w))"

section \<open>The dispatcher\<close>

text \<open>The two loops of \<^verbatim>\<open>handle\<close>; \<^verbatim>\<open>tags\<close> is the slice they append to.\<close>

fun handle_markers :: "Marker list \<Rightarrow> Packet \<Rightarrow> string list \<Rightarrow> string list outcome" where
  "handle_markers [] p tags = Return tags"
| "handle_markers (fn # fns) p tags =
     (case fn p of
        Panic \<Rightarrow> Panic
      | Return ts \<Rightarrow> handle_markers fns p (tags @ ts))"

fun handle_seriesMarkers :: "SeriesMarker list \<Rightarrow> Packet \<Rightarrow> string list \<Rightarrow> string list outcome" where
  "handle_seriesMarkers [] p tags = Return tags"
| "handle_seriesMarkers (sfn # sfns) p tags =
     (case sfn [p] of
        Panic \<Rightarrow> Panic
      | Return ts \<Rightarrow> handle_seriesMarkers sfns p (tags @ ts))"

definition handle_tags :: "Badcapt \<Rightarrow> Packet \<Rightarrow> string list outcome" where
  "handle_tags b p =
     (case handle_markers (markers b) p [] of
        Panic \<Rightarrow> Panic
      | Return tags \<Rightarrow> handle_seriesMarkers (seriesMarkers b) p tags)"

definition handle :: "Env \<Rightarrow> Badcapt \<Rightarrow> Packet \<Rightarrow> Trace \<Rightarrow> error option outcome \<times> Trace" where
  "handle env b p w =
     (case handle_tags b p of
        Panic \<Rightarrow> (Panic, w)
      | Return tags \<Rightarrow>
         if length tags = 0 then (Return None, w)
         else (case export env b \<lparr> tp_Packet = p, tp_Tags = tags \<rparr> w of
                 (Some err, w') \<Rightarrow> (Return (Some err), w')
               | (None, w') \<Rightarrow> (Return None, w')))"

text \<open>The body of the task that \<^verbatim>\<open>Listen\<close> starts for each packet it has read.\<close>

definition Listen_task :: "Env \<Rightarrow> Badcapt \<Rightarrow> Packet \<Rightarrow> Trace \<Rightarrow> unit outcome \<times> Trace" where
  "Listen_task env b p w =
     (case handle env b p w of
        (Panic, w') \<Rightarrow> (Panic, w')
      | (Return hErr, w') \<Rightarrow>
         (case hErr of
            Some e \<Rightarrow> (Return (), w' @ [CallLogPrintln e])
          | None \<Rightarrow> (Return (), w')))"

section \<open>Building a configuration\<close>

type_synonym Opt = "Badcapt \<Rightarrow> error option \<times> Badcapt"

definition AddPacketMarker :: "Marker \<Rightarrow> Opt" where
  "AddPacketMarker m b = (None, b\<lparr> markers := markers b @ [m] \<rparr>)"

definition SetElastic :: "Client option \<Rightarrow> Opt" where
  "SetElastic c b = (None, b\<lparr> client := c \<rparr>)"

definition SetElasticIndexName :: "string \<Rightarrow> Opt" where
  "SetElasticIndexName name b = (None, b\<lparr> indexName := name \<rparr>)"

definition SetElasticDocType :: "string \<Rightarrow> Opt" where
  "SetElasticDocType doc b = (None, b\<lparr> docType := doc \<rparr>)"

definition SetCacheSize :: "int \<Rightarrow> Opt" where
  "SetCacheSize sz b = (None, b\<lparr> cacheSize := sz \<rparr>)"

text \<open>The loop of \<^verbatim>\<open>New\<close> over the options: the first error ends it.\<close>

fun New_opts :: "Opt list \<Rightarrow> Badcapt \<Rightarrow> error + Badcapt" where
  "New_opts [] conf = Inr conf"
| "New_opts (f # fs) conf =
     (case f conf of
        (Some err, conf') \<Rightarrow> Inl err
      | (None, conf') \<Rightarrow> New_opts fs conf')"

text \<open>
  \<^verbatim>\<open>New\<close>: the defaults, the options in order, then, with a search client, the check for
  the index and its creation. Both requests name the package constant \<^verbatim>\<open>indexName\<close>.
\<close>

definition New :: "Env \<Rightarrow> Opt list \<Rightarrow> Trace \<Rightarrow> (error + Badcapt) \<times> Trace" where
  "New env opts w =
     (case New_opts opts
             \<lparr> client = None, indexName = indexName_const, docType = docType_const,
               markers = defaultMarkers env, seriesMarkers = [], cache = None,
               cacheSize = 0 \<rparr> of
        Inl err \<Rightarrow> (Inl err, w)
      | Inr conf \<Rightarrow>
         (case client conf of
            None \<Rightarrow> (Inr conf, w)
          | Some c \<Rightarrow>
             (case IndexExists_Do c indexName_const of
                Inl err \<Rightarrow> (Inl err, w @ [CallIndexExists indexName_const])
              | Inr exists \<Rightarrow>
                 if \<not> exists then
                   (case CreateIndex_Do c indexName_const of
                      Some err \<Rightarrow>
                        (Inl err,
                         w @ [CallIndexExists indexName_const, CallCreateIndex indexName_const])
                    | None \<Rightarrow>
                        (Inr conf,
                         w @ [CallIndexExists indexName_const, CallCreateIndex indexName_const]))
                 else (Inr conf, w @ [CallIndexExists indexName_const]))))"

text \<open>
  \<^verbatim>\<open>NewConfig\<close> (deprecated): the client is built from the location, the index is checked
  and created, and the marker list is assigned only when no marker was passed.
\<close>

definition NewConfig_markers :: "Env \<Rightarrow> Marker list \<Rightarrow> Badcapt \<Rightarrow> Badcapt" where
  "NewConfig_markers env ms conf =
     (if length ms = 0 then conf\<lparr> markers := defaultMarkers env \<rparr> else conf)"

definition NewConfig :: "Env \<Rightarrow> string \<Rightarrow> Marker list \<Rightarrow> Trace \<Rightarrow> (error + Badcapt) \<times> Trace" where
  "NewConfig env elasticLoc ms w =
     (case elastic_NewClient env elasticLoc of
        Inl err \<Rightarrow> (Inl err, w)
      | Inr c \<Rightarrow>
         (let conf = \<lparr> client = Some c, indexName = indexName_const, docType = docType_const,
                       markers = [], seriesMarkers = [], cache = None, cacheSize = 0 \<rparr>
          in case IndexExists_Do c indexName_const of
               Inl err \<Rightarrow> (Inl err, w @ [CallIndexExists indexName_const])
             | Inr exists \<Rightarrow>
                if \<not> exists then
                  (case CreateIndex_Do c indexName_const of
                     Some err \<Rightarrow>
                       (Inl err,
                        w @ [CallIndexExists indexName_const, CallCreateIndex indexName_const])
                   | None \<Rightarrow>
                       (Inr (NewConfig_markers env ms conf),
                        w @ [CallIndexExists indexName_const, CallCreateIndex indexName_const]))
                else (Inr (NewConfig_markers env ms conf),
                      w @ [CallIndexExists indexName_const])))"

section \<open>Concrete packets, markers and collaborators\<close>

text \<open>
  A TCP segment from 10.0.0.5:51413 to 203.0.113.9:23, the same frame with a spurious UDP
  layer in front of the TCP one, a UDP datagram, an IPv4 packet without transport layer and
  a frame without IPv4 layer.
\<close>

definition ip4_example :: IPv4 where
  "ip4_example = \<lparr> ip4_SrcIP = [10, 0, 0, 5], ip4_DstIP = [203, 0, 113, 9] \<rparr>"

definition tcp_example :: TCP where
  "tcp_example = \<lparr> tcp_SrcPort = 51413, tcp_DstPort = 23 \<rparr>"

definition udp_example :: UDP where
  "udp_example = \<lparr> udp_SrcPort = 5353, udp_DstPort = 53 \<rparr>"

definition packet_tcp :: Packet where
  "packet_tcp = \<lparr> Layers = [LayerOther 0, LayerIPv4 ip4_example, LayerTCP tcp_example],
                   CaptureTimestamp = 1575936000 \<rparr>"

definition packet_udp_tcp :: Packet where
  "packet_udp_tcp =
     \<lparr> Layers = [LayerOther 0, LayerIPv4 ip4_example, LayerUDP udp_example,
                 LayerTCP tcp_example, LayerApplication [0x68, 0x69]],
       CaptureTimestamp = 1575936001 \<rparr>"

definition packet_udp :: Packet where
  "packet_udp = \<lparr> Layers = [LayerOther 0, LayerIPv4 ip4_example, LayerUDP udp_example],
                   CaptureTimestamp = 1575936002 \<rparr>"

definition packet_icmp :: Packet where
  "packet_icmp = \<lparr> Layers = [LayerOther 0, LayerIPv4 ip4_example, LayerOther 1],
                    CaptureTimestamp = 1575936003 \<rparr>"

definition packet_arp :: Packet where
  "packet_arp = \<lparr> Layers = [LayerOther 0, LayerOther 2], CaptureTimestamp = 1575936004 \<rparr>"

definition marker_silent :: Marker where
  "marker_silent p = Return []"

definition marker_masscan :: Marker where
  "marker_masscan p = Return [''masscan'']"

definition marker_panics :: Marker where
  "marker_panics p = Panic"

definition store_empty :: Client where
  "store_empty = \<lparr> IndexExists_Do = (\<lambda>name. Inr False),
                    CreateIndex_Do = (\<lambda>name. None),
                    Index_Do = (\<lambda>name doc record. None) \<rparr>"

definition env_example :: Env where
  "env_example = \<lparr> MiraiIdentifier = marker_silent,
                    ZmapIdentifier = marker_silent,
                    MasscanIdentifier = marker_silent,
                    json_Marshal = (\<lambda>record. Inr (concat (Tags record))),
                    elastic_NewClient = (\<lambda>loc. Inr store_empty) \<rparr>"

definition conf_console :: "Marker list \<Rightarrow> Badcapt" where
  "conf_console ms = \<lparr> client = None, indexName = indexName_const, docType = docType_const,
                       markers = ms, seriesMarkers = [], cache = None, cacheSize = 0 \<rparr>"

section \<open>Auxiliary facts\<close>

text \<open>The first loop of the dispatcher over a concatenated marker list.\<close>

lemma handle_markers_append:
  "handle_markers (ms1 @ ms2) p tags =
     (case handle_markers ms1 p tags of
        Panic \<Rightarrow> Panic
      | Return tags' \<Rightarrow> handle_markers ms2 p tags')"
  by (induction ms1 arbitrary: tags) (auto split: outcome.splits)

text \<open>When every marker returns, the loop yields the tags in registration order.\<close>

lemma handle_markers_total:
  "handle_markers (map (\<lambda>f q. Return (f q)) fs) p tags =
     Return (tags @ concat (map (\<lambda>f. f p) fs))"
  by (induction fs arbitrary: tags) auto

text \<open>The options built by \<^verbatim>\<open>AddPacketMarker\<close> append to the marker list, in order.\<close>

lemma New_opts_AddPacketMarker:
  "New_opts (map AddPacketMarker ms) conf = Inr (conf\<lparr> markers := markers conf @ ms \<rparr>)"
  by (induction ms arbitrary: conf) (auto simp: AddPacketMarker_def)

lemma New_AddPacketMarker:
  "New env (map AddPacketMarker ms) w =
     (Inr \<lparr> client = None, indexName = indexName_const, docType = docType_const,
            markers = defaultMarkers env @ ms, seriesMarkers = [], cache = None,
            cacheSize = 0 \<rparr>, w)"
  by (simp add: New_def New_opts_AddPacketMarker)

text \<open>
  A run of \<^verbatim>\<open>export\<close> is always visible: it returns an error or it has made a call.
\<close>

lemma export_visible: "export env b tp w \<noteq> (None, w)"
  by (auto simp: export_def exportScreen_def exportElastic_def split: sum.splits option.splits)

text \<open>Neither \<^verbatim>\<open>export\<close> nor \<^verbatim>\<open>handle\<close> reads the cache fields.\<close>

lemma export_cache:
  "export env (b\<lparr> cache := c, cacheSize := n \<rparr>) tp w = export env b tp w"
  by (simp add: export_def exportElastic_def split: sum.splits option.splits)

lemma handle_tags_cache:
  "handle_tags (b\<lparr> cache := c, cacheSize := n \<rparr>) p = handle_tags b p"
  by (simp add: handle_tags_def split: outcome.splits)

lemma handle_cache:
  "handle env (b\<lparr> cache := c, cacheSize := n \<rparr>) p w = handle env b p w"
  by (simp add: handle_def handle_tags_cache export_cache split: outcome.splits)

lemma SetCacheSize_cache:
  "snd (SetCacheSize n b) = b\<lparr> cache := cache b, cacheSize := n \<rparr>"
  by (simp add: SetCacheSize_def)

section \<open>The dispatcher filters\<close>

text \<open>
  C1. When the tags aggregated from all markers and series markers are empty, \<^verbatim>\<open>handle\<close>
  returns nil and leaves the trace as it was: no line is written and no request is sent
  to the index. The Record is built by \<^verbatim>\<open>export\<close> alone, which is reached only in the
  other case, with a tagged packet whose tags are not empty.
\<close>

theorem handle_no_tags:
  "(handle_tags b p = Return [] \<longrightarrow> handle env b p w = (Return None, w)) \<and>
   (handle_tags b p = Return tags \<longrightarrow> tags \<noteq> [] \<longrightarrow>
      handle env b p w =
        (case export env b \<lparr> tp_Packet = p, tp_Tags = tags \<rparr> w of
           (err, w') \<Rightarrow> (Return err, w')))"
  by (auto simp: handle_def split: prod.splits option.splits)

theorem handle_no_tags_witness:
  "handle_tags (conf_console [marker_silent, marker_silent]) packet_udp = Return [] \<and>
   handle env_example (conf_console [marker_silent, marker_silent]) packet_udp [] =
     (Return None, []) \<and>
   handle_tags (conf_console [marker_silent, marker_masscan]) packet_tcp = Return [''masscan''] \<and>
   [''masscan''] \<noteq> [] \<and>
   handle env_example (conf_console [marker_silent, marker_masscan]) packet_tcp [] =
     (Return None, [CallPrintln ''masscan''])"
proof -
  have e: "handle_tags (conf_console [marker_silent, marker_silent]) packet_udp = Return []"
    by (simp add: handle_tags_def conf_console_def marker_silent_def)
  have t: "handle_tags (conf_console [marker_silent, marker_masscan]) packet_tcp =
             Return [''masscan'']"
    by (simp add: handle_tags_def conf_console_def marker_silent_def marker_masscan_def)
  have x: "export env_example (conf_console [marker_silent, marker_masscan])
             \<lparr> tp_Packet = packet_tcp, tp_Tags = [''masscan''] \<rparr> [] =
             (None, [CallPrintln ''masscan''])"
    by (simp add: export_def exportScreen_def NewRecord_def unpackIPv4_def packet_tcp_def
        conf_console_def env_example_def Let_def)
  from handle_no_tags [of "conf_console [marker_silent, marker_silent]" packet_udp
      env_example "[]"] e
  have a: "handle env_example (conf_console [marker_silent, marker_silent]) packet_udp [] =
             (Return None, [])"
    by simp
  from handle_no_tags [of "conf_console [marker_silent, marker_masscan]" packet_tcp
      env_example "[]" "[''masscan'']"] t x
  have b: "handle env_example (conf_console [marker_silent, marker_masscan]) packet_tcp [] =
             (Return None, [CallPrintln ''masscan''])"
    by simp
  from e a t b show ?thesis by simp
qed

section \<open>Record construction\<close>

text \<open>
  C2. For a tagged packet with an IPv4 layer and a TCP layer, \<^verbatim>\<open>NewRecord\<close> succeeds, the
  transport field is \<^verbatim>\<open>tcp\<close> and both ports are those of the TCP header, whether or not a
  UDP layer is present as well. With an IPv4 layer, no TCP layer and a UDP layer, the
  transport field is \<^verbatim>\<open>udp\<close> and both ports are those of the UDP header. In either case
  transport and ports come from the same single layer.
\<close>

theorem NewRecord_transport:
  assumes "Layer_IPv4 (Layers (tp_Packet tp)) = Some ip4"
  shows "(Layer_TCP (Layers (tp_Packet tp)) = Some tcp \<longrightarrow>
            NewRecord tp =
              Inr \<lparr> SrcIP = ip4_SrcIP ip4, TransportProto = ''tcp'',
                    SrcPort = tcp_SrcPort tcp, DstIP = ip4_DstIP ip4,
                    DstPort = tcp_DstPort tcp,
                    Timestamp = CaptureTimestamp (tp_Packet tp), Tags = tp_Tags tp,
                    Payload = (case ApplicationLayer (Layers (tp_Packet tp)) of
                                 None \<Rightarrow> [] | Some bs \<Rightarrow> bs),
                    PayloadString =
                      string_of_bytes (case ApplicationLayer (Layers (tp_Packet tp)) of
                                         None \<Rightarrow> [] | Some bs \<Rightarrow> bs) \<rparr>) \<and>
         (Layer_TCP (Layers (tp_Packet tp)) = None \<longrightarrow>
          Layer_UDP (Layers (tp_Packet tp)) = Some udp \<longrightarrow>
            NewRecord tp =
              Inr \<lparr> SrcIP = ip4_SrcIP ip4, TransportProto = ''udp'',
                    SrcPort = udp_SrcPort udp, DstIP = ip4_DstIP ip4,
                    DstPort = udp_DstPort udp,
                    Timestamp = CaptureTimestamp (tp_Packet tp), Tags = tp_Tags tp,
                    Payload = (case ApplicationLayer (Layers (tp_Packet tp)) of
                                 None \<Rightarrow> [] | Some bs \<Rightarrow> bs),
                    PayloadString =
                      string_of_bytes (case ApplicationLayer (Layers (tp_Packet tp)) of
                                         None \<Rightarrow> [] | Some bs \<Rightarrow> bs) \<rparr>)"
  using assms by (simp add: NewRecord_def unpackIPv4_def Let_def)

theorem NewRecord_transport_witness:
  "NewRecord \<lparr> tp_Packet = packet_udp_tcp, tp_Tags = [''masscan''] \<rparr> =
     Inr \<lparr> SrcIP = [10, 0, 0, 5], TransportProto = ''tcp'', SrcPort = 51413,
           DstIP = [203, 0, 113, 9], DstPort = 23, Timestamp = 1575936001,
           Tags = [''masscan''], Payload = [0x68, 0x69], PayloadString = ''hi'' \<rparr> \<and>
   NewRecord \<lparr> tp_Packet = packet_udp, tp_Tags = [''zmap''] \<rparr> =
     Inr \<lparr> SrcIP = [10, 0, 0, 5], TransportProto = ''udp'', SrcPort = 5353,
           DstIP = [203, 0, 113, 9], DstPort = 53, Timestamp = 1575936002,
           Tags = [''zmap''], Payload = [], PayloadString = [] \<rparr>"
proof -
  have i1: "Layer_IPv4 (Layers (tp_Packet \<lparr> tp_Packet = packet_udp_tcp, tp_Tags = [''masscan''] \<rparr>))
              = Some ip4_example"
    by (simp add: packet_udp_tcp_def)
  have t1: "Layer_TCP (Layers (tp_Packet \<lparr> tp_Packet = packet_udp_tcp, tp_Tags = [''masscan''] \<rparr>))
              = Some tcp_example"
    by (simp add: packet_udp_tcp_def)
  have i2: "Layer_IPv4 (Layers (tp_Packet \<lparr> tp_Packet = packet_udp, tp_Tags = [''zmap''] \<rparr>))
              = Some ip4_example"
    by (simp add: packet_udp_def)
  have t2: "Layer_TCP (Layers (tp_Packet \<lparr> tp_Packet = packet_udp, tp_Tags = [''zmap''] \<rparr>)) = None"
    by (simp add: packet_udp_def)
  have u2: "Layer_UDP (Layers (tp_Packet \<lparr> tp_Packet = packet_udp, tp_Tags = [''zmap''] \<rparr>))
              = Some udp_example"
    by (simp add: packet_udp_def)
  have s: "string_of_bytes [0x68, 0x69] = ''hi''"
    by code_simp
  from NewRecord_transport [OF i1, of tcp_example] t1 s
  have a: "NewRecord \<lparr> tp_Packet = packet_udp_tcp, tp_Tags = [''masscan''] \<rparr> =
     Inr \<lparr> SrcIP = [10, 0, 0, 5], TransportProto = ''tcp'', SrcPort = 51413,
           DstIP = [203, 0, 113, 9], DstPort = 23, Timestamp = 1575936001,
           Tags = [''masscan''], Payload = [0x68, 0x69], PayloadString = ''hi'' \<rparr>"
    by (simp add: packet_udp_tcp_def ip4_example_def tcp_example_def)
  from NewRecord_transport [OF i2, of _ udp_example] t2 u2
  have b: "NewRecord \<lparr> tp_Packet = packet_udp, tp_Tags = [''zmap''] \<rparr> =
     Inr \<lparr> SrcIP = [10, 0, 0, 5], TransportProto = ''udp'', SrcPort = 5353,
           DstIP = [203, 0, 113, 9], DstPort = 53, Timestamp = 1575936002,
           Tags = [''zmap''], Payload = [], PayloadString = [] \<rparr>"
    by (simp add: packet_udp_def ip4_example_def udp_example_def string_of_bytes_def)
  from a b show ?thesis by simp
qed

text \<open>
  C3. For a tagged packet without an IPv4 layer, \<^verbatim>\<open>NewRecord\<close> fails with the error for an
  unsupported network layer, and \<^verbatim>\<open>export\<close> returns that error with the trace as it was:
  neither backend is called.
\<close>

theorem NewRecord_no_IPv4:
  assumes "Layer_IPv4 (Layers (tp_Packet tp)) = None"
  shows "NewRecord tp = Inl UnsupportedNetworkLayer \<and>
         export env b tp w = (Some UnsupportedNetworkLayer, w)"
  using assms by (simp add: export_def NewRecord_def unpackIPv4_def UnsupportedNetworkLayer_def)

theorem NewRecord_no_IPv4_witness:
  "NewRecord \<lparr> tp_Packet = packet_arp, tp_Tags = [''masscan''] \<rparr> =
     Inl (errors_New ''not ip4 type packet'') \<and>
   export env_example (conf_console [marker_masscan])
     \<lparr> tp_Packet = packet_arp, tp_Tags = [''masscan''] \<rparr> [] =
     (Some (errors_New ''not ip4 type packet''), [])"
proof -
  have h: "Layer_IPv4 (Layers (tp_Packet \<lparr> tp_Packet = packet_arp, tp_Tags = [''masscan''] \<rparr>)) = None"
    by (simp add: packet_arp_def)
  from NewRecord_no_IPv4 [OF h] show ?thesis
    by (simp add: UnsupportedNetworkLayer_def)
qed

text \<open>
  C4. For a tagged packet with an IPv4 layer and neither a TCP nor a UDP layer,
  \<^verbatim>\<open>NewRecord\<close> fails with the error for an unsupported transport, and \<^verbatim>\<open>export\<close> returns
  that error with the trace as it was.
\<close>

theorem NewRecord_no_transport:
  assumes "Layer_IPv4 (Layers (tp_Packet tp)) = Some ip4"
    and "Layer_TCP (Layers (tp_Packet tp)) = None"
    and "Layer_UDP (Layers (tp_Packet tp)) = None"
  shows "NewRecord tp = Inl UnsupportedTransport \<and>
         export env b tp w = (Some UnsupportedTransport, w)"
  using assms
  by (simp add: export_def NewRecord_def unpackIPv4_def UnsupportedTransport_def Let_def)

theorem NewRecord_no_transport_witness:
  "NewRecord \<lparr> tp_Packet = packet_icmp, tp_Tags = [''zmap''] \<rparr> =
     Inl (errors_New ''nor tcp nor udp type packet'') \<and>
   export env_example (conf_console [marker_masscan])
     \<lparr> tp_Packet = packet_icmp, tp_Tags = [''zmap''] \<rparr> [] =
     (Some (errors_New ''nor tcp nor udp type packet''), [])"
proof -
  have i: "Layer_IPv4 (Layers (tp_Packet \<lparr> tp_Packet = packet_icmp, tp_Tags = [''zmap''] \<rparr>))
             = Some ip4_example"
    by (simp add: packet_icmp_def)
  have t: "Layer_TCP (Layers (tp_Packet \<lparr> tp_Packet = packet_icmp, tp_Tags = [''zmap''] \<rparr>)) = None"
    by (simp add: packet_icmp_def)
  have u: "Layer_UDP (Layers (tp_Packet \<lparr> tp_Packet = packet_icmp, tp_Tags = [''zmap''] \<rparr>)) = None"
    by (simp add: packet_icmp_def)
  from NewRecord_no_transport [OF i t u] show ?thesis
    by (simp add: UnsupportedTransport_def)
qed

section \<open>Configurations and their markers\<close>

text \<open>
  C5. The registered markers are to be the defaults plus every marker the caller supplies.
  \<^verbatim>\<open>New\<close> with \<^verbatim>\<open>AddPacketMarker\<close> options does so (\<open>New_AddPacketMarker\<close>), and the
  dispatcher concatenates the tags in registration order (\<open>handle_markers_total\<close>).
  \<^verbatim>\<open>NewConfig\<close> called with one marker returns a configuration whose marker list is
  empty: neither the defaults nor the supplied marker are registered, and a packet that
  the supplied marker tags is discarded by \<^verbatim>\<open>handle\<close> without any export.
\<close>

theorem NewConfig_drops_markers:
  "NewConfig env_example ''http://localhost:9200'' [marker_masscan] [] =
     (Inr \<lparr> client = Some store_empty, indexName = ''badcapt'', docType = ''bcrecord'',
            markers = [], seriesMarkers = [], cache = None, cacheSize = 0 \<rparr>,
      [CallIndexExists ''badcapt'', CallCreateIndex ''badcapt'']) \<and>
   marker_masscan packet_tcp = Return [''masscan''] \<and>
   handle env_example
     \<lparr> client = Some store_empty, indexName = ''badcapt'', docType = ''bcrecord'',
       markers = [], seriesMarkers = [], cache = None, cacheSize = 0 \<rparr>
     packet_tcp [] = (Return None, [])"
  by (simp add: NewConfig_def NewConfig_markers_def env_example_def store_empty_def
      indexName_const_def docType_const_def marker_masscan_def handle_def handle_tags_def)

section \<open>Index provisioning\<close>

text \<open>
  C6. With a search client and the index name set to \<^verbatim>\<open>custom\<close> by option, on a store
  that holds no index, \<^verbatim>\<open>New\<close> asks for and creates the index \<^verbatim>\<open>badcapt\<close>, the package
  constant; no request names \<^verbatim>\<open>custom\<close>, the index the returned configuration writes to.
\<close>

theorem New_provisions_constant_name:
  "New env_example [SetElastic (Some store_empty), SetElasticIndexName ''custom''] [] =
     (Inr \<lparr> client = Some store_empty, indexName = ''custom'', docType = ''bcrecord'',
            markers = [marker_silent, marker_silent, marker_silent], seriesMarkers = [],
            cache = None, cacheSize = 0 \<rparr>,
      [CallIndexExists ''badcapt'', CallCreateIndex ''badcapt''])"
  by (simp add: New_def SetElastic_def SetElasticIndexName_def env_example_def store_empty_def
      indexName_const_def docType_const_def defaultMarkers_def)

section \<open>Panics in markers\<close>

text \<open>
  C7, as stated, fails: with a panicking marker registered before one that tags the
  packet, \<^verbatim>\<open>handle\<close> does not return, nothing is exported and nothing is logged.
\<close>

theorem handle_panic_counterexample:
  "marker_panics packet_tcp = Panic \<and>
   marker_masscan packet_tcp = Return [''masscan''] \<and>
   handle env_example (conf_console [marker_panics, marker_masscan]) packet_tcp [] = (Panic, []) \<and>
   Listen_task env_example (conf_console [marker_panics, marker_masscan]) packet_tcp [] = (Panic, [])"
  by (simp add: Listen_task_def handle_def handle_tags_def conf_console_def marker_panics_def
      marker_masscan_def)

text \<open>
  C7, amended. A panic raised inside a marker during dispatch is not recovered: when the
  markers registered before it have returned, the panic leaves \<^verbatim>\<open>handle\<close> and the task that
  called it, whatever the markers registered after it would produce; the trace is as it
  was, so no tag is exported and no warning is logged.
\<close>

theorem handle_panic_propagates:
  assumes "markers b = ms1 @ fn # ms2"
    and "handle_markers ms1 p [] = Return tags"
    and "fn p = Panic"
  shows "handle env b p w = (Panic, w) \<and> Listen_task env b p w = (Panic, w)"
  using assms by (simp add: Listen_task_def handle_def handle_tags_def handle_markers_append)

theorem handle_panic_propagates_witness:
  "handle env_example (conf_console [marker_masscan, marker_panics, marker_masscan]) packet_tcp [] =
     (Panic, []) \<and>
   Listen_task env_example (conf_console [marker_masscan, marker_panics, marker_masscan])
     packet_tcp [] = (Panic, [])"
proof -
  have m: "markers (conf_console [marker_masscan, marker_panics, marker_masscan]) =
             [marker_masscan] @ marker_panics # [marker_masscan]"
    by (simp add: conf_console_def)
  have r: "handle_markers [marker_masscan] packet_tcp [] = Return [''masscan'']"
    by (simp add: marker_masscan_def)
  have q: "marker_panics packet_tcp = Panic"
    by (simp add: marker_panics_def)
  from handle_panic_propagates [OF m r q] show ?thesis .
qed

section \<open>Construction errors in the capture loop\<close>

text \<open>
  C8, as stated, fails: a tagged frame without IPv4 layer makes the per-packet task of
  \<^verbatim>\<open>Listen\<close> write the construction error to the log.
\<close>

theorem Listen_task_logs_counterexample:
  "handle_tags (conf_console [marker_masscan]) packet_arp = Return [''masscan''] \<and>
   NewRecord \<lparr> tp_Packet = packet_arp, tp_Tags = [''masscan''] \<rparr> = Inl UnsupportedNetworkLayer \<and>
   Listen_task env_example (conf_console [marker_masscan]) packet_arp [] =
     (Return (), [CallLogPrintln UnsupportedNetworkLayer])"
  by (simp add: Listen_task_def handle_def handle_tags_def conf_console_def marker_masscan_def
      export_def NewRecord_def unpackIPv4_def packet_arp_def UnsupportedNetworkLayer_def)

text \<open>
  C8, amended. For a packet with non-empty tags whose record construction fails, no export
  call is made, \<^verbatim>\<open>handle\<close> returns the construction error, and the per-packet task of
  \<^verbatim>\<open>Listen\<close> logs that error with \<^verbatim>\<open>log.Println\<close>.
\<close>

theorem Listen_task_logs_construction_error:
  assumes "handle_tags b p = Return tags"
    and "tags \<noteq> []"
    and "NewRecord \<lparr> tp_Packet = p, tp_Tags = tags \<rparr> = Inl e"
  shows "handle env b p w = (Return (Some e), w) \<and>
         Listen_task env b p w = (Return (), w @ [CallLogPrintln e])"
  using assms by (simp add: Listen_task_def handle_def export_def)

theorem Listen_task_logs_construction_error_witness:
  "handle env_example (conf_console [marker_silent, marker_masscan]) packet_icmp [] =
     (Return (Some UnsupportedTransport), []) \<and>
   Listen_task env_example (conf_console [marker_silent, marker_masscan]) packet_icmp [] =
     (Return (), [CallLogPrintln UnsupportedTransport])"
proof -
  have t: "handle_tags (conf_console [marker_silent, marker_masscan]) packet_icmp =
             Return [''masscan'']"
    by (simp add: handle_tags_def conf_console_def marker_silent_def marker_masscan_def)
  have n: "[''masscan''] \<noteq> []"
    by simp
  have r: "NewRecord \<lparr> tp_Packet = packet_icmp, tp_Tags = [''masscan''] \<rparr> =
             Inl UnsupportedTransport"
    by (simp add: NewRecord_def unpackIPv4_def packet_icmp_def UnsupportedTransport_def)
  from Listen_task_logs_construction_error [OF t n r] show ?thesis by simp
qed

section \<open>The cache fields\<close>

text \<open>
  C9. Two configurations that differ only in the cache handle and the cache size give the
  same result and the same calls in \<^verbatim>\<open>handle\<close> and in \<^verbatim>\<open>export\<close>, on every packet and every
  trace; in particular the option \<^verbatim>\<open>SetCacheSize\<close> changes neither.
\<close>

theorem cache_not_consulted:
  "handle env (b\<lparr> cache := c, cacheSize := n \<rparr>) p w = handle env b p w \<and>
   export env (b\<lparr> cache := c, cacheSize := n \<rparr>) tp w = export env b tp w \<and>
   handle env (snd (SetCacheSize n b)) p w = handle env b p w \<and>
   export env (snd (SetCacheSize n b)) tp w = export env b tp w"
  by (simp only: SetCacheSize_cache handle_cache export_cache)

section \<open>The default configuration\<close>

text \<open>
  C10. \<^verbatim>\<open>New\<close> without options returns a configuration and no error; the configuration has
  no search client, the three default markers, no series marker, the default index name
  and document type, and the trace is as it was: no provisioning request is made.
\<close>

theorem New_no_options:
  "New env [] w =
     (Inr \<lparr> client = None, indexName = ''badcapt'', docType = ''bcrecord'',
            markers = [MiraiIdentifier env, ZmapIdentifier env, MasscanIdentifier env],
            seriesMarkers = [], cache = None, cacheSize = 0 \<rparr>, w)"
  by (simp add: New_def indexName_const_def docType_const_def defaultMarkers_def)

end
